theory Spec2Isabelle
  imports Complex_Main "HOL-Library.AList" "HOL-Library.Sublist"
begin

section \<open>Python values\<close>

text \<open>
  The values that travel through the authentication code: decoded JSON (the JWT payload,
  the identity service's answer) and the attributes of exceptions. A \<open>dict\<close> is an
  association list in insertion order whose keys are distinct; \<open>d.get(k)\<close> is
  \<open>map_of d k\<close>, with \<open>None\<close> for Python's \<open>None\<close> default.
\<close>

datatype pyval =
    PNone
  | PBool bool
  | PInt int
  | PFloat real
  | PStr string
  | PList "pyval list"
  | PDict "(string \<times> pyval) list"

text \<open>Python's truth value of an object, as \<open>not x\<close> and \<open>if x:\<close> test it.\<close>

fun truthy :: "pyval \<Rightarrow> bool" where
  "truthy PNone = False"
| "truthy (PBool b) = b"
| "truthy (PInt i) = (i \<noteq> 0)"
| "truthy (PFloat r) = (r \<noteq> 0)"
| "truthy (PStr s) = (s \<noteq> [])"
| "truthy (PList xs) = (xs \<noteq> [])"
| "truthy (PDict kvs) = (kvs \<noteq> [])"

subsection \<open>\<open>str(int)\<close>: the decimal rendering used by f-strings\<close>

definition digit_char :: "nat \<Rightarrow> char" where
  "digit_char d = ''0123456789'' ! (d mod 10)"

function str_nat :: "nat \<Rightarrow> string" where
  "str_nat n = (if n < 10 then [digit_char n] else str_nat (n div 10) @ [digit_char (n mod 10)])"
  by pat_completeness auto
termination
  by (relation "measure id") auto

declare str_nat.simps [simp del]

definition str_int :: "int \<Rightarrow> string" where
  "str_int i = (if i < 0 then CHR ''-'' # str_nat (nat (- i)) else str_nat (nat i))"

text \<open>
  \<open>str(x)\<close> of an attribute that holds a string, an integer, a truth value or \<open>None\<close>;
  the rendering of floats and containers is not needed and left unspecified.
\<close>

fun str_pyval :: "pyval \<Rightarrow> string" where
  "str_pyval (PStr s) = s"
| "str_pyval (PInt i) = str_int i"
| "str_pyval PNone = ''None''"
| "str_pyval (PBool b) = (if b then ''True'' else ''False'')"

section \<open>The error taxonomy (app/exceptions)\<close>

text \<open>
  The exception classes of the repository and the foreign classes that its handlers name
  or that reach them: PyJWT's \<open>DecodeError\<close> and \<open>InvalidTokenError\<close>, pydantic's
  \<open>ValidationError\<close>, botocore's \<open>ConnectionError\<close> and \<open>ClientError\<close>, asyncio's
  \<open>CancelledError\<close>. \<open>mro\<close> lists a class with its ancestors (those that no handler
  names are left out), so \<open>except C\<close> catches \<open>e\<close> exactly when \<open>C\<close> is in the \<open>mro\<close>
  of the class of \<open>e\<close>.
\<close>

datatype exc_class =
    BaseException
  | Exception
  | RapidaException
  | AuthenticationException
  | MissingAuthorizationKeyException
  | InvalidAuthorizationTokenException
  | ConnectorException
  | ConnectorClientFailureException
  | ConnectorIllegalNameException
  | ConnectorNotThereException
  | ConnectorClientInternalFailureException
  | BridgeException
  | BridgeClientException
  | BridgeInternalFailureException
  | DecodeError
  | InvalidTokenError
  | ValueError
  | KeyError
  | AttributeError
  | ValidationError
  | BotoConnectionError
  | BotoClientError
  | CancelledError

definition mro_Exception :: "exc_class list" where
  "mro_Exception = [Exception, BaseException]"

definition mro_RapidaException :: "exc_class list" where
  "mro_RapidaException = RapidaException # mro_Exception"

definition mro_AuthenticationException :: "exc_class list" where
  "mro_AuthenticationException = AuthenticationException # mro_RapidaException"

definition mro_ConnectorException :: "exc_class list" where
  "mro_ConnectorException = ConnectorException # mro_RapidaException"

definition mro_BridgeException :: "exc_class list" where
  "mro_BridgeException = BridgeException # mro_RapidaException"

fun mro :: "exc_class \<Rightarrow> exc_class list" where
  "mro BaseException = [BaseException]"
| "mro Exception = mro_Exception"
| "mro RapidaException = mro_RapidaException"
| "mro AuthenticationException = mro_AuthenticationException"
| "mro MissingAuthorizationKeyException =
     MissingAuthorizationKeyException # mro_AuthenticationException"
| "mro InvalidAuthorizationTokenException =
     InvalidAuthorizationTokenException # mro_RapidaException"
| "mro ConnectorException = mro_ConnectorException"
| "mro ConnectorClientFailureException =
     ConnectorClientFailureException # mro_ConnectorException"
| "mro ConnectorIllegalNameException = ConnectorIllegalNameException # mro_ConnectorException"
| "mro ConnectorNotThereException = ConnectorNotThereException # mro_ConnectorException"
| "mro ConnectorClientInternalFailureException =
     ConnectorClientInternalFailureException # mro_ConnectorException"
| "mro BridgeException = mro_BridgeException"
| "mro BridgeClientException = BridgeClientException # mro_BridgeException"
| "mro BridgeInternalFailureException = BridgeInternalFailureException # mro_BridgeException"
| "mro InvalidTokenError = InvalidTokenError # mro_Exception"
| "mro DecodeError = DecodeError # InvalidTokenError # mro_Exception"
| "mro ValueError = ValueError # mro_Exception"
| "mro KeyError = KeyError # mro_Exception"
| "mro AttributeError = AttributeError # mro_Exception"
| "mro ValidationError = ValidationError # ValueError # mro_Exception"
| "mro BotoConnectionError = BotoConnectionError # mro_Exception"
| "mro BotoClientError = BotoClientError # mro_Exception"
| "mro CancelledError = [CancelledError, BaseException]"

text \<open>
  An exception object. The repository's exceptions carry the attributes their
  constructors assign; \<open>error_code\<close> holds whatever was assigned last, a string or an
  integer. A foreign exception (raised by the interpreter or a library) carries its class
  and its text \<open>str(e)\<close>; botocore's \<open>ClientError\<close> carries in addition the code of its
  response, \<open>response["Error"]["Code"]\<close>.
\<close>

record rapida_attrs =
  status_code :: int
  message :: string
  error_code :: pyval
  connector_name :: "string option"
  bridge_name :: "string option"

datatype exn =
    Rapida exc_class rapida_attrs
  | Foreign exc_class string
  | ClientError string string

fun class_of :: "exn \<Rightarrow> exc_class" where
  "class_of (Rapida c a) = c"
| "class_of (Foreign c s) = c"
| "class_of (ClientError code s) = BotoClientError"

definition isinstance :: "exn \<Rightarrow> exc_class \<Rightarrow> bool" where
  "isinstance e c = (c \<in> set (mro (class_of e)))"

text \<open>\<open>RapidaException.__str__\<close>: \<open>f"{self.error_code} - {self.message}"\<close>.\<close>

fun str_exn :: "exn \<Rightarrow> string" where
  "str_exn (Rapida c a) = str_pyval (error_code a) @ '' - '' @ message a"
| "str_exn (Foreign c s) = s"
| "str_exn (ClientError code s) = s"

text \<open>
  \<open>RapidaException.__init__(status_code, message, error_code, error_prefix="RAPIDA",
  service_code="KN_API")\<close>: the attributes it assigns.
\<close>

definition RapidaException_init ::
  "int \<Rightarrow> string \<Rightarrow> int \<Rightarrow> string \<Rightarrow> string \<Rightarrow> rapida_attrs" where
  "RapidaException_init status msg code error_prefix service_code =
     \<lparr> status_code = status, message = msg,
       error_code = PStr (error_prefix @ ''_'' @ service_code @ ''_'' @ str_int code),
       connector_name = None, bridge_name = None \<rparr>"

definition default_error_prefix :: string where
  "default_error_prefix = ''RAPIDA''"

definition default_service_code :: string where
  "default_service_code = ''KN_API''"

text \<open>\<open>AuthenticationException.__init__(message, auth_type, status_code=400, error_code=1000)\<close>.\<close>

definition AuthenticationException_init ::
  "string \<Rightarrow> string \<Rightarrow> int \<Rightarrow> int \<Rightarrow> rapida_attrs" where
  "AuthenticationException_init msg auth_type status code =
     RapidaException_init status (auth_type @ '': '' @ msg) code
       default_error_prefix default_service_code"

text \<open>\<open>MissingAuthorizationKeyException(auth_type, message="Missing Authorization Key")\<close>,
  class attributes \<open>error_code = 3001\<close>, \<open>status_code = 400\<close>.\<close>

definition MissingAuthorizationKeyException_new :: "string \<Rightarrow> string \<Rightarrow> exn" where
  "MissingAuthorizationKeyException_new auth_type msg =
     Rapida MissingAuthorizationKeyException
       (AuthenticationException_init msg auth_type 400 3001)"

definition missing_key_default_message :: string where
  "missing_key_default_message = ''Missing Authorization Key''"

text \<open>\<open>InvalidAuthorizationTokenException(message)\<close>, a direct subclass of
  \<open>RapidaException\<close> with class attributes \<open>error_code = 3002\<close>, \<open>status_code = 401\<close>.\<close>

definition InvalidAuthorizationTokenException_new :: "string \<Rightarrow> exn" where
  "InvalidAuthorizationTokenException_new msg =
     Rapida InvalidAuthorizationTokenException
       (RapidaException_init 401 msg 3002
          default_error_prefix default_service_code)"

text \<open>\<open>ConnectorException.__init__(message, connector_name, error_code=2000)\<close>: sets
  \<open>connector_name\<close>, then calls the root constructor with status 422.\<close>

definition ConnectorException_init ::
  "string \<Rightarrow> string \<Rightarrow> int \<Rightarrow> rapida_attrs" where
  "ConnectorException_init msg cname code =
     (RapidaException_init 422 (cname @ '': '' @ msg) code
        default_error_prefix default_service_code) \<lparr> connector_name := Some cname \<rparr>"

definition ConnectorClientFailureException_new :: "string \<Rightarrow> string \<Rightarrow> exn" where
  "ConnectorClientFailureException_new msg cname =
     Rapida ConnectorClientFailureException
       (ConnectorException_init msg cname 2001)"

definition ConnectorIllegalNameException_new :: "string \<Rightarrow> string \<Rightarrow> exn" where
  "ConnectorIllegalNameException_new cname msg =
     Rapida ConnectorIllegalNameException
       (ConnectorException_init msg cname 2002)"

definition ConnectorNotThereException_new :: "string \<Rightarrow> string \<Rightarrow> exn" where
  "ConnectorNotThereException_new cname msg =
     Rapida ConnectorNotThereException
       (ConnectorException_init msg cname 2003)"

definition ConnectorClientInternalFailureException_new :: "string \<Rightarrow> string \<Rightarrow> exn" where
  "ConnectorClientInternalFailureException_new cname msg =
     Rapida ConnectorClientInternalFailureException
       (ConnectorException_init msg cname 2004)"

text \<open>\<open>BridgeException.__init__(message, bridge_name, error_code=1000)\<close> assigns the four
  attributes itself and does not call the root constructor.\<close>

definition BridgeException_init :: "string \<Rightarrow> string \<Rightarrow> int \<Rightarrow> rapida_attrs" where
  "BridgeException_init msg bname code =
     \<lparr> status_code = 400, message = bname @ '': '' @ msg, error_code = PInt code,
       connector_name = None, bridge_name = Some bname \<rparr>"

definition BridgeClientException_new :: "string \<Rightarrow> string \<Rightarrow> exn" where
  "BridgeClientException_new msg bname =
     Rapida BridgeClientException (BridgeException_init msg bname 1001)"

definition BridgeInternalFailureException_new :: "string \<Rightarrow> string \<Rightarrow> exn" where
  "BridgeInternalFailureException_new msg bname =
     Rapida BridgeInternalFailureException (BridgeException_init msg bname 1002)"

fun attrs_of :: "exn \<Rightarrow> rapida_attrs option" where
  "attrs_of (Rapida c a) = Some a"
| "attrs_of (Foreign c s) = None"
| "attrs_of (ClientError code s) = None"

section \<open>Principals (app/middlewares/auth/user.py)\<close>

text \<open>
  The pydantic models. Field names that several models share (\<open>id\<close>, \<open>role\<close>,
  \<open>projectId\<close>, \<open>organizationId\<close>, \<open>token\<close>) are prefixed with the model they belong to,
  except where a claim names them.
\<close>

record Account =
  account_id :: int
  account_name :: string
  account_email :: string

record Token =
  token_id :: int
  token_value :: string
  tokenType :: string

record OrganizationRole =
  organizationrole_id :: int
  organizationId :: int
  organizationrole_role :: string
  organizationName :: string

record ProjectRole =
  projectrole_id :: int
  projectId :: int
  projectrole_role :: string
  projectName :: string

record AuthenticatedUser =
  user :: Account
  token :: Token
  organizationRole :: OrganizationRole
  projectRoles :: "ProjectRole list"
  currentProject :: "ProjectRole option"

record InternalAuthenticatedUser =
  userId :: int
  internal_projectId :: int
  internal_organizationId :: int

datatype User =
    Authenticated AuthenticatedUser
  | Internal InternalAuthenticatedUser
  | AnonymousUser

subsection \<open>\<open>int(project_id)\<close>\<close>

text \<open>
  Two things that \<open>int\<close> takes from the interpreter it runs in: \<open>repr\<close> of a string, which
  its error message quotes, and \<open>sys.get_int_max_str_digits()\<close>, the limit on the digits of
  a literal (4300 unless configured; 0 for no limit; never between 1 and 639).
\<close>

record interpreter =
  repr_str :: "string \<Rightarrow> string"
  int_max_str_digits :: nat

text \<open>
  CPython's \<open>int(s)\<close> on a string, base 10 (\<open>PyLong_FromUnicodeObject\<close>,
  \<open>PyLong_FromString\<close>). A string is a list of code points 0 to 255, which is what a
  header value, decoded as Latin-1, consists of. Among them the characters skipped as
  whitespace are tab to carriage return, the space, and the two non-ASCII spaces U+0085
  and U+00A0; the separators U+001C to U+001F are not skipped. The only decimal digits are
  \<open>0\<close> to \<open>9\<close>.
\<close>

definition py_isspace :: "char \<Rightarrow> bool" where
  "py_isspace c =
     (let n = (of_char c :: nat)
      in (9 \<le> n \<and> n \<le> 13) \<or> n = 32 \<or> n = 133 \<or> n = 160)"

definition is_digit :: "char \<Rightarrow> bool" where
  "is_digit c = (let n = (of_char c :: nat) in 48 \<le> n \<and> n \<le> 57)"

definition digit_or_underscore :: "char \<Rightarrow> bool" where
  "digit_or_underscore c = (is_digit c \<or> c = CHR ''_'')"

fun adjacent_underscores :: "string \<Rightarrow> bool" where
  "adjacent_underscores (a # b # cs) =
     ((a = CHR ''_'' \<and> b = CHR ''_'') \<or> adjacent_underscores (b # cs))"
| "adjacent_underscores cs = False"

text \<open>
  The run of digits and underscores that the scan reads is accepted when it is not empty,
  neither begins nor ends with an underscore, and has no two underscores in a row.
\<close>

definition run_wellformed :: "string \<Rightarrow> bool" where
  "run_wellformed run =
     (case run of
        [] \<Rightarrow> False
      | c # cs \<Rightarrow> c \<noteq> CHR ''_'' \<and> last run \<noteq> CHR ''_'' \<and> \<not> adjacent_underscores run)"

definition digits_value :: "string \<Rightarrow> nat" where
  "digits_value ds = foldl (\<lambda>acc c. 10 * acc + ((of_char c :: nat) - 48)) 0 ds"

text \<open>The two \<open>ValueError\<close>s of \<open>int\<close>; the first quotes at most 200 characters of the
  \<open>repr\<close> of its argument (format \<open>%.200R\<close>).\<close>

definition int_invalid_literal :: "interpreter \<Rightarrow> string \<Rightarrow> exn" where
  "int_invalid_literal py s =
     Foreign ValueError
       (''invalid literal for int() with base 10: '' @ take 200 (repr_str py s))"

definition int_limit_exceeded :: "nat \<Rightarrow> nat \<Rightarrow> exn" where
  "int_limit_exceeded limit digits =
     Foreign ValueError
       (''Exceeds the limit ('' @ str_nat limit
        @ '' digits) for integer string conversion: value has '' @ str_nat digits
        @ '' digits; use sys.set_int_max_str_digits() to increase the limit'')"

text \<open>
  In the order of \<open>PyLong_FromString\<close>: leading whitespace, one sign, the run of digits and
  underscores and its checks, the limit on the number of digits (tested only above 640
  digits), and last the rest of the string, which may hold whitespace only.
\<close>

definition py_int :: "interpreter \<Rightarrow> string \<Rightarrow> exn + int" where
  "py_int py s =
     (let t = dropWhile py_isspace s;
          negative = (case t of [] \<Rightarrow> False | c # cs \<Rightarrow> c = CHR ''-'');
          u = (case t of
                 [] \<Rightarrow> []
               | c # cs \<Rightarrow> if c = CHR ''+'' \<or> c = CHR ''-'' then cs else t);
          run = takeWhile digit_or_underscore u;
          rest = dropWhile digit_or_underscore u;
          ds = filter is_digit run
      in if \<not> run_wellformed run then Inl (int_invalid_literal py s)
         else if 640 < length ds \<and> 0 < int_max_str_digits py
                 \<and> int_max_str_digits py < length ds
         then Inl (int_limit_exceeded (int_max_str_digits py) (length ds))
         else if dropWhile py_isspace rest \<noteq> [] then Inl (int_invalid_literal py s)
         else Inr (if negative then - int (digits_value ds) else int (digits_value ds)))"

subsection \<open>\<open>AuthenticatedUser.select_project\<close>\<close>

text \<open>
  The loop over \<open>projectRoles\<close>. \<open>int(project_id)\<close> is evaluated in the loop's test, once
  per entry visited, so an empty list never evaluates it. The result is the entry found,
  if any.
\<close>

fun select_project_loop ::
  "interpreter \<Rightarrow> ProjectRole list \<Rightarrow> string \<Rightarrow> exn + ProjectRole option" where
  "select_project_loop py [] project_id = Inr None"
| "select_project_loop py (project # rest) project_id =
     (case py_int py project_id of
        Inl e \<Rightarrow> Inl e
      | Inr n \<Rightarrow>
          if projectId project = n then Inr (Some project)
          else select_project_loop py rest project_id)"

text \<open>The method returns its value together with the (possibly updated) object.\<close>

definition select_project ::
  "interpreter \<Rightarrow> AuthenticatedUser \<Rightarrow> string
     \<Rightarrow> exn + (ProjectRole option \<times> AuthenticatedUser)" where
  "select_project py self project_id =
     (case select_project_loop py (projectRoles self) project_id of
        Inl e \<Rightarrow> Inl e
      | Inr None \<Rightarrow> Inr (None, self)
      | Inr (Some project) \<Rightarrow> Inr (Some project, self \<lparr> currentProject := Some project \<rparr>))"

text \<open>The identity accessors; every accessor of \<open>AnonymousUser\<close> raises.\<close>

definition anonymous_attribute_error :: exn where
  "anonymous_attribute_error =
     InvalidAuthorizationTokenException_new ''anonymous user doen't have any attribute.''"

fun User_user_id :: "User \<Rightarrow> exn + int" where
  "User_user_id (Authenticated u) = Inr (account_id (user u))"
| "User_user_id (Internal u) = Inr (userId u)"
| "User_user_id AnonymousUser = Inl anonymous_attribute_error"

fun User_project_id :: "User \<Rightarrow> exn + int option" where
  "User_project_id (Authenticated u) =
     (case currentProject u of None \<Rightarrow> Inr None | Some p \<Rightarrow> Inr (Some (projectId p)))"
| "User_project_id (Internal u) = Inr (Some (internal_projectId u))"
| "User_project_id AnonymousUser = Inl anonymous_attribute_error"

fun User_organization_id :: "User \<Rightarrow> exn + int" where
  "User_organization_id (Authenticated u) = Inr (organizationId (organizationRole u))"
| "User_organization_id (Internal u) = Inr (internal_organizationId u)"
| "User_organization_id AnonymousUser = Inl anonymous_attribute_error"

section \<open>Connections\<close>

text \<open>
  An \<open>HTTPConnection\<close> as the backends read it: its headers, looked up by name with
  \<open>conn.headers.get(key)\<close>, which answers \<open>None\<close> for an absent header.
\<close>

record HTTPConnection =
  headers :: "(string \<times> string) list"

definition headers_get :: "HTTPConnection \<Rightarrow> string \<Rightarrow> string option" where
  "headers_get conn key = map_of (headers conn) key"

section \<open>The JWT backend (app/middlewares/jwt_authorization_middleware.py)\<close>

text \<open>
  The configuration class \<open>JwtAuthenticationConfig\<close> (\<open>app.configs.auth_config\<close>) is
  not among the sources; the record has the four attributes that \<open>authenticate\<close> reads,
  \<open>secret_key\<close> standing for \<open>secret_key.get_secret_value()\<close>.
\<close>

record JwtAuthenticationConfig =
  header_key :: string
  secret_key :: string
  algorithms :: "string list"
  strict :: bool

text \<open>
  Two library calls are parameters of the model: \<open>jwt.decode(token, secret, algorithms)\<close>,
  which answers the payload (a JSON object) or raises, and
  \<open>InternalAuthenticatedUser.parse_obj(payload)\<close>, pydantic's validation, which answers
  the model or raises \<open>ValidationError\<close>.
\<close>

type_synonym payload = "(string \<times> pyval) list"

type_synonym jwt_decode = "string \<Rightarrow> string \<Rightarrow> string list \<Rightarrow> exn + payload"

type_synonym parse_obj = "payload \<Rightarrow> exn + InternalAuthenticatedUser"

text \<open>\<open>not payload or not payload.get("userId")\<close>.\<close>

definition payload_rejected :: "payload \<Rightarrow> bool" where
  "payload_rejected payload =
     (payload = [] \<or>
      (case map_of payload ''userId'' of None \<Rightarrow> True | Some v \<Rightarrow> \<not> truthy v))"

text \<open>The body of the \<open>try\<close> block.\<close>

definition jwt_try_body ::
  "jwt_decode \<Rightarrow> parse_obj \<Rightarrow> JwtAuthenticationConfig \<Rightarrow> HTTPConnection \<Rightarrow> exn + (bool \<times> User)" where
  "jwt_try_body decode parse config conn =
     (case headers_get conn (header_key config) of
        None \<Rightarrow> Inl (MissingAuthorizationKeyException_new ''JWT'' missing_key_default_message)
      | Some authorization \<Rightarrow>
          if authorization = []
          then Inl (MissingAuthorizationKeyException_new ''JWT'' missing_key_default_message)
          else
            (case decode authorization (secret_key config) (algorithms config) of
               Inl e \<Rightarrow> Inl e
             | Inr payload \<Rightarrow>
                 if payload_rejected payload
                 then Inl (InvalidAuthorizationTokenException_new ''invalid token payload.'')
                 else (case parse payload of
                         Inl e \<Rightarrow> Inl e
                       | Inr u \<Rightarrow> Inr (True, Internal u))))"

text \<open>
  \<open>JwtAuthBackend.authenticate\<close>: the body under its two handlers. The first handler
  whose class matches runs; an exception raised inside a handler leaves the statement,
  and an exception no handler matches propagates.
\<close>

definition JwtAuthBackend_authenticate ::
  "jwt_decode \<Rightarrow> parse_obj \<Rightarrow> JwtAuthenticationConfig \<Rightarrow> HTTPConnection \<Rightarrow> exn + (bool \<times> User)" where
  "JwtAuthBackend_authenticate decode parse config conn =
     (case jwt_try_body decode parse config conn of
        Inr r \<Rightarrow> Inr r
      | Inl err \<Rightarrow>
          if isinstance err DecodeError
          then Inl (InvalidAuthorizationTokenException_new
                      (''unable to decode given token. '' @ str_exn err))
          else if isinstance err AuthenticationException
          then (if strict config then Inl err else Inr (False, AnonymousUser))
          else Inl err)"

section \<open>The remote-token backend (app/middlewares/token_authorization_middleware.py)\<close>

text \<open>
  The identity call \<open>user_info_resolver(auth_token, user_id)\<close> and pydantic's
  \<open>AuthenticatedUser(**user_info)\<close> are parameters, as is the interpreter that
  \<open>int(project_id)\<close> runs in. The resolver answers a dict or \<open>None\<close>, or raises.
\<close>

type_synonym user_info_resolver = "string \<Rightarrow> string \<Rightarrow> exn + payload option"

type_synonym build_user = "payload \<Rightarrow> exn + AuthenticatedUser"

definition authorization_header_key :: string where
  "authorization_header_key = ''authorization''"

definition auth_header_key :: string where
  "auth_header_key = ''x-auth-id''"

definition project_header_key :: string where
  "project_header_key = ''x-project-id''"

text \<open>
  The body of the inner \<open>try\<close>, once both required headers are there. The test
  \<open>not user_info or "user" not in user_info\<close> rejects \<open>None\<close>, the empty dict and a
  dict without the key \<open>user\<close>; \<open>if not project_id\<close> skips an absent or empty header.
\<close>

definition token_inner_body ::
  "interpreter \<Rightarrow> user_info_resolver \<Rightarrow> build_user \<Rightarrow> HTTPConnection \<Rightarrow> string \<Rightarrow> string
     \<Rightarrow> exn + (bool \<times> User)" where
  "token_inner_body py resolver build conn authorization_token auth_id =
     (case resolver authorization_token auth_id of
        Inl e \<Rightarrow> Inl e
      | Inr None \<Rightarrow> Inl (InvalidAuthorizationTokenException_new ''illegal token payload.'')
      | Inr (Some user_info) \<Rightarrow>
          if user_info = [] \<or> map_of user_info ''user'' = None
          then Inl (InvalidAuthorizationTokenException_new ''illegal token payload.'')
          else
            (case build user_info of
               Inl e \<Rightarrow> Inl e
             | Inr u \<Rightarrow>
                 (case headers_get conn project_header_key of
                    None \<Rightarrow> Inr (True, Authenticated u)
                  | Some pid \<Rightarrow>
                      if pid = [] then Inr (True, Authenticated u)
                      else (case select_project py u pid of
                              Inl e \<Rightarrow> Inl e
                            | Inr (found, u') \<Rightarrow> Inr (True, Authenticated u')))))"

text \<open>The inner \<open>try\<close> with its handler \<open>except BridgeException\<close>.\<close>

definition token_inner_try ::
  "interpreter \<Rightarrow> user_info_resolver \<Rightarrow> build_user \<Rightarrow> HTTPConnection \<Rightarrow> string \<Rightarrow> string
     \<Rightarrow> exn + (bool \<times> User)" where
  "token_inner_try py resolver build conn authorization_token auth_id =
     (case token_inner_body py resolver build conn authorization_token auth_id of
        Inr r \<Rightarrow> Inr r
      | Inl err \<Rightarrow>
          if isinstance err BridgeException
          then Inl (InvalidAuthorizationTokenException_new
                      (''Token request is not valid. '' @ str_exn err))
          else Inl err)"

text \<open>
  The body of the outer \<open>try\<close>: \<open>if not authorization_token or not auth_id\<close> rejects an
  absent and an empty header alike.
\<close>

definition token_try_body ::
  "interpreter \<Rightarrow> user_info_resolver \<Rightarrow> build_user \<Rightarrow> HTTPConnection
     \<Rightarrow> exn + (bool \<times> User)" where
  "token_try_body py resolver build conn =
     (case headers_get conn authorization_header_key of
        None \<Rightarrow> Inl (MissingAuthorizationKeyException_new ''token-auth'' missing_key_default_message)
      | Some authorization_token \<Rightarrow>
          (case headers_get conn auth_header_key of
             None \<Rightarrow>
               Inl (MissingAuthorizationKeyException_new ''token-auth'' missing_key_default_message)
           | Some auth_id \<Rightarrow>
               if authorization_token = [] \<or> auth_id = []
               then Inl (MissingAuthorizationKeyException_new ''token-auth''
                           missing_key_default_message)
               else token_inner_try py resolver build conn authorization_token auth_id))"

text \<open>
  \<open>TokenAuthBackend.authenticate\<close>: both outer handlers answer
  \<open>(False, AnonymousUser())\<close>.
\<close>

definition TokenAuthBackend_authenticate ::
  "interpreter \<Rightarrow> user_info_resolver \<Rightarrow> build_user \<Rightarrow> HTTPConnection
     \<Rightarrow> exn + (bool \<times> User)" where
  "TokenAuthBackend_authenticate py resolver build conn =
     (case token_try_body py resolver build conn of
        Inr r \<Rightarrow> Inr r
      | Inl ex \<Rightarrow>
          if isinstance ex AuthenticationException then Inr (False, AnonymousUser)
          else if isinstance ex RapidaException then Inr (False, AnonymousUser)
          else Inl ex)"

section \<open>The boundary translator (app/commons/j_response.py, app/exceptions)\<close>

record JResponse =
  content :: pyval
  response_status_code :: int

text \<open>\<open>JResponse.ok\<close>: \<open>200 <= self.status_code <= 299\<close>.\<close>

definition ok :: "JResponse \<Rightarrow> bool" where
  "ok r = (200 \<le> response_status_code r \<and> response_status_code r \<le> 299)"

text \<open>\<open>JResponse.render\<close>: the ordered body handed to \<open>json.dumps\<close>.\<close>

definition render :: "JResponse \<Rightarrow> pyval" where
  "render r =
     PDict [(''success'', PBool (ok r)), (''content'', content r),
            (''code'', PInt (response_status_code r))]"

definition default_on_error :: "exn \<Rightarrow> string \<Rightarrow> int \<Rightarrow> JResponse" where
  "default_on_error exc error_message error_code' =
     \<lparr> content = PDict [(''error_message'', PStr error_message), (''detail'', PStr (str_exn exc))],
       response_status_code = error_code' \<rparr>"

text \<open>
  \<open>add_all_exception_handler\<close>: the handlers registered for
  \<open>ConnectorClientFailureException\<close> and for \<open>RapidaException\<close> both answer
  \<open>default_on_error(exc, error_code=exc.status_code, error_message=exc.message)\<close>; an
  exception of neither class gets no envelope from them.
\<close>

fun handle_rapida_error :: "exn \<Rightarrow> JResponse option" where
  "handle_rapida_error (Rapida c a) =
     (if RapidaException \<in> set (mro c)
      then Some (default_on_error (Rapida c a) (message a) (status_code a))
      else None)"
| "handle_rapida_error (Foreign c s) = None"
| "handle_rapida_error (ClientError code s) = None"

section \<open>Connector lookup (app/connectors/connector_factory.py)\<close>

text \<open>
  \<open>request.state.datasource\<close> is the dict of registered connectors, by name; reading the
  attribute before it was set raises \<open>AttributeError\<close> (its text is shortened to the name
  of the attribute). The connectors themselves are opaque (\<open>'c\<close>).
\<close>

record 'c Request =
  datasource :: "(string \<times> 'c) list option"

text \<open>
  \<open>str\<close> of a dict, as the f-string of \<open>get_me\<close> renders it: the items, each
  \<open>repr(key): repr(value)\<close>, joined by a comma and a space, in braces. The two \<open>repr\<close>
  functions are the interpreter's and are parameters.
\<close>

fun join :: "string \<Rightarrow> string list \<Rightarrow> string" where
  "join sep [] = []"
| "join sep [x] = x"
| "join sep (x # y # ys) = x @ sep @ join sep (y # ys)"

definition dict_str :: "(string \<Rightarrow> string) \<Rightarrow> ('c \<Rightarrow> string) \<Rightarrow> (string \<times> 'c) list \<Rightarrow> string" where
  "dict_str repr_key repr_value d =
     ''{'' @ join '', '' (map (\<lambda>(k, v). repr_key k @ '': '' @ repr_value v) d) @ ''}''"

definition state_AttributeError :: exn where
  "state_AttributeError = Foreign AttributeError ''datasource''"

text \<open>\<open>get_me(connection_name)(request)\<close>.\<close>

definition get_me ::
  "(string \<Rightarrow> string) \<Rightarrow> ('c \<Rightarrow> string) \<Rightarrow> string \<Rightarrow> 'c Request \<Rightarrow> exn + 'c" where
  "get_me repr_key repr_value connection_name request =
     (case datasource request of
        None \<Rightarrow> Inl state_AttributeError
      | Some d \<Rightarrow>
          (case map_of d connection_name of
             Some connection \<Rightarrow> Inr connection
           | None \<Rightarrow>
               Inl (ConnectorIllegalNameException_new connection_name
                      (connection_name @ '' not found in context. choose possible keys '' @
                       dict_str repr_key repr_value d))))"

text \<open>\<open>get_me_redis(request)\<close>, one of the lookups of a connector known by its fixed name.\<close>

definition get_me_redis :: "'c Request \<Rightarrow> exn + 'c" where
  "get_me_redis request =
     (case datasource request of
        None \<Rightarrow> Inl state_AttributeError
      | Some d \<Rightarrow>
          (case map_of d ''redis'' of
             Some connection \<Rightarrow> Inr connection
           | None \<Rightarrow>
               Inl (ConnectorNotThereException_new ''redis'' (''redis'' @ '' is not enable in env.''))))"

section \<open>AWS connectors (app/connectors/aws)\<close>

record AWSAuth =
  region :: string
  access_key_id :: "string option"
  secret_access_key :: "string option"
  assume_role :: "string option"

text \<open>
  An \<open>AioSession\<close> as this code uses it: the \<open>region\<close> configuration variable and the
  credentials set on it explicitly.
\<close>

record AioSession =
  region_variable :: "string option"
  explicit_credentials :: "(string \<times> string) option"

text \<open>What \<open>get_frozen_credentials()\<close> answers.\<close>

record frozen_credentials =
  frozen_access_key :: string
  frozen_secret_key :: string
  frozen_token :: "string option"

text \<open>The part of \<open>AssumeRoleResponseTypeDef\<close> that is read: \<open>response["Credentials"]\<close>.\<close>

record assume_role_credentials =
  AccessKeyId :: string
  SecretAccessKey :: string
  SessionToken :: string

text \<open>
  What the world outside answers during one call of \<open>get_temporary_credentials\<close>: the two
  readings of \<open>time.time()\<close> (at the age test and at the store), the region a fresh
  session finds configured in its environment, and the outcome of each round-trip to the
  cloud service, should it be made. Clock readings are real numbers; the subtraction of
  two readings that are 600 seconds apart is exact in double precision at the magnitude of
  epoch seconds.
\<close>

record environment =
  time_at_check :: real
  time_at_store :: real
  environment_region :: "string option"
  frozen_outcome :: "exn + frozen_credentials"
  assume_role_outcome :: "exn + assume_role_credentials"

text \<open>The round-trips made, in order: a device of the model, to count them.\<close>

datatype sdk_call =
    Call_get_frozen_credentials
  | Call_assume_role string string "(string \<times> pyval) list"

text \<open>
  State of the class \<open>STSConnector\<close>, shared by all its instances: the class attribute
  \<open>__credentials_store\<close> (an \<open>OrderedDict\<close> from session name to the pair of payload and
  time of issue), which no method rebinds on an instance, and the round-trips made so far.
\<close>

record sts_class_state =
  credentials_store :: "(string \<times> (pyval \<times> real)) list"
  sdk_calls :: "sdk_call list"

text \<open>State of one instance: its configuration and its session, once connected.\<close>

record STSConnector =
  aws_config :: AWSAuth
  connection :: "AioSession option"

definition max_age_in_store :: real where
  "max_age_in_store = 600"

definition sts_name :: string where
  "sts_name = ''sts''"

text \<open>
  \<open>AWSConnector.get_session\<close>: the region of the configuration is set when it is not
  empty, the two keys when both are there and not empty (an empty \<open>SecretStr\<close> is false);
  otherwise the session keeps what its environment provides.
\<close>

definition get_session :: "environment \<Rightarrow> AWSAuth \<Rightarrow> AioSession" where
  "get_session env config =
     \<lparr> region_variable =
         (if region config \<noteq> [] then Some (region config) else environment_region env),
       explicit_credentials =
         (case (access_key_id config, secret_access_key config) of
            (Some a, Some k) \<Rightarrow> if a \<noteq> [] \<and> k \<noteq> [] then Some (a, k) else None
          | _ \<Rightarrow> None) \<rparr>"

definition region_pyval :: "AioSession \<Rightarrow> pyval" where
  "region_pyval session =
     (case region_variable session of None \<Rightarrow> PNone | Some r \<Rightarrow> PStr r)"

text \<open>
  \<open>AWSConnector.get_credentials\<close>: a fresh session, its frozen credentials, and the dict
  built from them. Nothing here catches what the round-trip raises.
\<close>

definition get_credentials :: "environment \<Rightarrow> STSConnector \<Rightarrow> string \<Rightarrow> exn + pyval" where
  "get_credentials env self session_name =
     (let session = get_session env (aws_config self)
      in case frozen_outcome env of
           Inl e \<Rightarrow> Inl e
         | Inr credential \<Rightarrow>
             Inr (PDict [(''access_key'', PStr (frozen_access_key credential)),
                         (''secret_key'', PStr (frozen_secret_key credential)),
                         (''token'', (case frozen_token credential of
                                         None \<Rightarrow> PNone | Some t \<Rightarrow> PStr t)),
                         (''region'', region_pyval session)]))"

text \<open>\<open>STSConnector.connect\<close>: a second call on a connected instance changes nothing.\<close>

definition connect :: "environment \<Rightarrow> STSConnector \<Rightarrow> STSConnector" where
  "connect env self =
     (case connection self of
        Some session \<Rightarrow> self
      | None \<Rightarrow> self \<lparr> connection := Some (get_session env (aws_config self)) \<rparr>)"

text \<open>\<open>error.response["Error"]["Code"]\<close>, read in the handler of \<open>ClientError\<close>.\<close>

fun client_error_code :: "exn \<Rightarrow> string option" where
  "client_error_code (ClientError code s) = Some code"
| "client_error_code _ = None"

text \<open>
  \<open>STSConnector._operate\<close> on the operation \<open>assume_role\<close>: connect, make the call, and
  turn every \<open>Exception\<close> into \<open>ConnectorClientFailureException\<close>. The three handlers are
  tried in the source's order; an exception outside \<open>Exception\<close> propagates.
\<close>

definition operate ::
  "environment \<Rightarrow> STSConnector \<Rightarrow> (exn + assume_role_credentials) \<times> STSConnector" where
  "operate env self =
     (let self' = connect env self
      in case assume_role_outcome env of
           Inr response \<Rightarrow> (Inr response, self')
         | Inl err \<Rightarrow>
             if isinstance err BotoConnectionError
             then (Inl (ConnectorClientFailureException_new (str_exn err) sts_name), self')
             else if isinstance err BotoClientError
             then (Inl (ConnectorClientFailureException_new
                          (if client_error_code err
                              = Some ''STS.Client.exceptions.RegionDisabledException''
                           then ''Illegal region for sts.'' else str_exn err)
                          sts_name), self')
             else if isinstance err Exception
             then (Inl (ConnectorClientFailureException_new (str_exn err) sts_name), self')
             else (Inl err, self'))"

text \<open>
  The message that the three handlers of \<open>_operate\<close> give to the error they raise:
  \<open>str(error)\<close>, but the fixed text for a \<open>ClientError\<close> whose code is that of a
  disabled region.
\<close>

definition failure_message :: "exn \<Rightarrow> string" where
  "failure_message err =
     (if client_error_code err = Some ''STS.Client.exceptions.RegionDisabledException''
      then ''Illegal region for sts.'' else str_exn err)"

text \<open>
  The part of \<open>get_temporary_credentials\<close> after the look-up in the store, in two
  definitions, one for each branch of \<open>if not self._aws_config.assume_role\<close>: the
  round-trip and, when it succeeds, the store of its payload with the time. The tracing
  context manager \<open>within_span\<close> (of \<open>app.observabilities\<close>) wraps the round-trip and
  lets results and exceptions through.
\<close>

definition resolve_frozen ::
  "environment \<Rightarrow> STSConnector \<Rightarrow> string \<Rightarrow> sts_class_state
     \<Rightarrow> (exn + pyval) \<times> STSConnector \<times> sts_class_state" where
  "resolve_frozen env self session_name cls =
     (let cls1 = cls \<lparr> sdk_calls := sdk_calls cls @ [Call_get_frozen_credentials] \<rparr>
      in case get_credentials env self session_name of
           Inl e \<Rightarrow> (Inl e, self, cls1)
         | Inr aio_frozen_credential \<Rightarrow>
             (Inr aio_frozen_credential, self,
              cls1 \<lparr> credentials_store :=
                       AList.update session_name (aio_frozen_credential, time_at_store env)
                         (credentials_store cls1) \<rparr>))"

text \<open>The round-trip with a role: \<open>_operate("assume_role", ...)\<close> and the dict built from
  its answer and from the region of the instance's session.\<close>

definition assumed_credentials :: "environment \<Rightarrow> STSConnector \<Rightarrow> (exn + pyval) \<times> STSConnector" where
  "assumed_credentials env self =
     (case operate env self of
        (Inl e, self') \<Rightarrow> (Inl e, self')
      | (Inr role_definition, self') \<Rightarrow>
          (case connection self' of
             None \<Rightarrow> (Inl (Foreign AttributeError ''get_config_variable''), self')
           | Some session \<Rightarrow>
               (Inr (PDict [(''access_key'', PStr (AccessKeyId role_definition)),
                            (''secret_key'', PStr (SecretAccessKey role_definition)),
                            (''token'', PStr (SessionToken role_definition)),
                            (''region'', region_pyval session)]), self')))"

definition resolve_assumed ::
  "environment \<Rightarrow> STSConnector \<Rightarrow> string \<Rightarrow> string \<Rightarrow> (string \<times> pyval) list
     \<Rightarrow> sts_class_state \<Rightarrow> (exn + pyval) \<times> STSConnector \<times> sts_class_state" where
  "resolve_assumed env self role_arn session_name kwargs cls =
     (let cls1 = cls \<lparr> sdk_calls :=
                          sdk_calls cls @ [Call_assume_role role_arn session_name kwargs] \<rparr>
      in case assumed_credentials env self of
           (Inl e, self') \<Rightarrow> (Inl e, self', cls1)
         | (Inr sts_temporary_credential, self') \<Rightarrow>
             (Inr sts_temporary_credential, self',
              cls1 \<lparr> credentials_store :=
                       AList.update session_name (sts_temporary_credential, time_at_store env)
                         (credentials_store cls1) \<rparr>))"

definition resolve_and_store ::
  "environment \<Rightarrow> STSConnector \<Rightarrow> string \<Rightarrow> (string \<times> pyval) list \<Rightarrow> sts_class_state
     \<Rightarrow> (exn + pyval) \<times> STSConnector \<times> sts_class_state" where
  "resolve_and_store env self session_name kwargs cls =
     (case assume_role (aws_config self) of
        None \<Rightarrow> resolve_frozen env self session_name cls
      | Some role_arn \<Rightarrow>
          if role_arn = [] then resolve_frozen env self session_name cls
          else resolve_assumed env self role_arn session_name kwargs cls)"

text \<open>
  The test of the look-up: an entry is stored under the session name and
  \<open>time.time() - store_credentials[1] < self.__max_age_in_store\<close>.
\<close>

definition has_live_entry :: "environment \<Rightarrow> sts_class_state \<Rightarrow> string \<Rightarrow> bool" where
  "has_live_entry env cls session_name =
     (case map_of (credentials_store cls) session_name of
        None \<Rightarrow> False
      | Some store_credentials \<Rightarrow>
          time_at_check env - snd store_credentials < max_age_in_store)"

text \<open>
  \<open>STSConnector.get_temporary_credentials(session_name, **kwargs)\<close>: a stored entry
  younger than \<open>__max_age_in_store\<close> is answered as it is; an older one is deleted
  before the round-trip.
\<close>

definition get_temporary_credentials ::
  "environment \<Rightarrow> STSConnector \<Rightarrow> string \<Rightarrow> (string \<times> pyval) list \<Rightarrow> sts_class_state
     \<Rightarrow> (exn + pyval) \<times> STSConnector \<times> sts_class_state" where
  "get_temporary_credentials env self session_name kwargs cls =
     (case map_of (credentials_store cls) session_name of
        None \<Rightarrow> resolve_and_store env self session_name kwargs cls
      | Some store_credentials \<Rightarrow>
          if time_at_check env - snd store_credentials < max_age_in_store
          then (Inr (fst store_credentials), self, cls)
          else resolve_and_store env self session_name kwargs
                 (cls \<lparr> credentials_store :=
                          AList.delete session_name (credentials_store cls) \<rparr>))"

section \<open>Sample values for the concrete instances\<close>

definition sample_role :: "int \<Rightarrow> int \<Rightarrow> ProjectRole" where
  "sample_role i p =
     \<lparr> projectrole_id = i, projectId = p, projectrole_role = ''admin'',
       projectName = ''docs'' \<rparr>"

definition sample_user :: "ProjectRole list \<Rightarrow> AuthenticatedUser" where
  "sample_user roles =
     \<lparr> user = \<lparr> account_id = 7, account_name = ''Ada'', account_email = ''ada@example.org'' \<rparr>,
       token = \<lparr> token_id = 1, token_value = ''abc'', tokenType = ''bearer'' \<rparr>,
       organizationRole =
         \<lparr> organizationrole_id = 1, organizationId = 9, organizationrole_role = ''owner'',
           organizationName = ''org'' \<rparr>,
       projectRoles = roles,
       currentProject = None \<rparr>"

text \<open>An interpreter with the default limit; its \<open>repr\<close> is right for the strings used
  here, which hold no quote, backslash or control character.\<close>

definition sample_interpreter :: interpreter where
  "sample_interpreter =
     \<lparr> repr_str = (\<lambda>s. CHR 0x27 # s @ [CHR 0x27]), int_max_str_digits = 4300 \<rparr>"

definition sample_jwt_config :: "bool \<Rightarrow> JwtAuthenticationConfig" where
  "sample_jwt_config s =
     \<lparr> header_key = ''authorization'', secret_key = ''k'', algorithms = [''HS256''],
       strict = s \<rparr>"

definition sample_connector :: "string option \<Rightarrow> STSConnector" where
  "sample_connector role =
     \<lparr> aws_config =
         \<lparr> region = ''eu-west-1'', access_key_id = None, secret_access_key = None,
           assume_role = role \<rparr>,
       connection = None \<rparr>"

definition sample_environment ::
  "real \<Rightarrow> real \<Rightarrow> exn + frozen_credentials \<Rightarrow> exn + assume_role_credentials \<Rightarrow> environment" where
  "sample_environment check store frozen assumed =
     \<lparr> time_at_check = check, time_at_store = store, environment_region = None,
       frozen_outcome = frozen, assume_role_outcome = assumed \<rparr>"

definition sample_frozen :: frozen_credentials where
  "sample_frozen =
     \<lparr> frozen_access_key = ''AKIA'', frozen_secret_key = ''secret'', frozen_token = None \<rparr>"

definition sample_assumed :: assume_role_credentials where
  "sample_assumed =
     \<lparr> AccessKeyId = ''ASIA'', SecretAccessKey = ''secret'', SessionToken = ''token'' \<rparr>"

section \<open>Evaluation rules\<close>

lemmas mro_defs =
  mro_Exception_def mro_RapidaException_def mro_AuthenticationException_def
  mro_ConnectorException_def mro_BridgeException_def

lemmas str_int_eval = str_int_def str_nat.simps digit_char_def

lemmas py_int_eval =
  py_int_def py_isspace_def is_digit_def digit_or_underscore_def run_wellformed_def
  digits_value_def Let_def

lemmas exn_new_defs =
  MissingAuthorizationKeyException_new_def InvalidAuthorizationTokenException_new_def
  ConnectorClientFailureException_new_def ConnectorIllegalNameException_new_def
  ConnectorNotThereException_new_def ConnectorClientInternalFailureException_new_def
  BridgeClientException_new_def BridgeInternalFailureException_new_def
  AuthenticationException_init_def ConnectorException_init_def BridgeException_init_def
  RapidaException_init_def default_error_prefix_def default_service_code_def
  missing_key_default_message_def

lemma isinstance_Foreign [simp]:
  "isinstance (Foreign c s) d \<longleftrightarrow> d \<in> set (mro c)"
  by (simp add: isinstance_def)

lemma isinstance_invalid_token [simp]:
  "isinstance (InvalidAuthorizationTokenException_new m) c
     \<longleftrightarrow> c \<in> {InvalidAuthorizationTokenException, RapidaException, Exception, BaseException}"
  by (auto simp: isinstance_def InvalidAuthorizationTokenException_new_def mro_defs)

lemma isinstance_missing_key [simp]:
  "isinstance (MissingAuthorizationKeyException_new t m) c
     \<longleftrightarrow> c \<in> {MissingAuthorizationKeyException, AuthenticationException, RapidaException,
              Exception, BaseException}"
  by (auto simp: isinstance_def MissingAuthorizationKeyException_new_def mro_defs)

section \<open>The error taxonomy: the rendering of \<open>error_code\<close>\<close>

text \<open>
  Every class whose constructor reaches \<open>RapidaException.__init__\<close> gets the composite
  string: the authentication and the connector errors.
\<close>

lemma rapida_error_code_composite:
  "error_code (RapidaException_init status msg code error_prefix service_code)
     = PStr (error_prefix @ ''_'' @ service_code @ ''_'' @ str_int code)"
  by (simp add: RapidaException_init_def)

lemma connector_error_code_composite:
  "error_code (ConnectorException_init msg cname code)
     = PStr (''RAPIDA_KN_API_'' @ str_int code)"
  by (simp add: ConnectorException_init_def RapidaException_init_def
      default_error_prefix_def default_service_code_def)

lemma authentication_error_code_composite:
  "error_code (AuthenticationException_init msg auth_type status code)
     = PStr (''RAPIDA_KN_API_'' @ str_int code)"
  by (simp add: AuthenticationException_init_def RapidaException_init_def
      default_error_prefix_def default_service_code_def)

text \<open>
  Claim C6: every error of the taxonomy, bridge errors included, renders \<open>error_code\<close> as
  the composite string \<open>{prefix}_{service}_{numeric}\<close>. The bridge errors do not:
  \<open>BridgeException.__init__\<close> never calls the root constructor, so a
  \<open>BridgeClientException\<close> carries the bare integer \<open>1001\<close> and a
  \<open>BridgeInternalFailureException\<close> the bare integer \<open>1002\<close>, where a connector error
  built beside them carries \<open>RAPIDA_KN_API_2001\<close>.
\<close>

theorem bridge_error_code_is_bare_integer:
  "map_option error_code (attrs_of (BridgeClientException_new ''connection refused'' ''web-api''))
     = Some (PInt 1001)
   \<and> map_option error_code (attrs_of (BridgeInternalFailureException_new ''failed'' ''web-api''))
     = Some (PInt 1002)
   \<and> map_option error_code (attrs_of (ConnectorClientFailureException_new ''refused'' ''redis''))
     = Some (PStr ''RAPIDA_KN_API_2001'')"
  by (simp add: exn_new_defs str_int_eval)

section \<open>The JWT backend\<close>

lemma jwt_absent_header_degrades:
  "headers_get conn (header_key config) = None \<Longrightarrow> \<not> strict config \<Longrightarrow>
   JwtAuthBackend_authenticate decode parse config conn = Inr (False, AnonymousUser)"
  by (simp add: JwtAuthBackend_authenticate_def jwt_try_body_def)

text \<open>
  Claim C1: in non-strict mode \<open>JwtAuthBackend.authenticate\<close> propagates no exception for
  a malformed credential and answers \<open>(False, AnonymousUser())\<close>. It does so for an absent
  header only (\<open>jwt_absent_header_degrades\<close>). With \<open>strict = False\<close>, a token whose payload
  lacks \<open>userId\<close> and a token that does not decode both leave \<open>authenticate\<close> with an
  \<open>InvalidAuthorizationTokenException\<close>: that class derives from \<open>RapidaException\<close>, not
  from \<open>AuthenticationException\<close>, so the degrading handler does not match it, and the one
  built in the handler of \<open>DecodeError\<close> is raised outside the \<open>try\<close> body.
\<close>

theorem jwt_non_strict_propagates_invalid_token:
  "JwtAuthBackend_authenticate (\<lambda>t k a. Inr [(''projectId'', PInt 3)])
       (\<lambda>p. Inl (Foreign ValidationError ''userId: field required''))
       (sample_jwt_config False)
       \<lparr> headers = [(''authorization'', ''e30.e30.sig'')] \<rparr>
     = Inl (InvalidAuthorizationTokenException_new ''invalid token payload.'')
   \<and> JwtAuthBackend_authenticate (\<lambda>t k a. Inl (Foreign DecodeError ''Not enough segments''))
       (\<lambda>p. Inl (Foreign ValidationError ''userId: field required''))
       (sample_jwt_config False)
       \<lparr> headers = [(''authorization'', ''garbage'')] \<rparr>
     = Inl (InvalidAuthorizationTokenException_new
              ''unable to decode given token. Not enough segments'')"
  by (simp add: JwtAuthBackend_authenticate_def jwt_try_body_def headers_get_def
      payload_rejected_def mro_defs sample_jwt_config_def)

text \<open>
  Claim C10: when the decoded payload has a \<open>userId\<close> that is present but falsy,
  \<open>JwtAuthBackend.authenticate\<close> raises the Invalid-Authorization-Token error, the same
  outcome as for a payload that has no \<open>userId\<close> at all; the falsy value is never accepted
  as a principal. This holds for either value of \<open>strict\<close>.
\<close>

theorem jwt_falsy_userId_rejected:
  assumes "headers_get conn (header_key config) = Some tok" and "tok \<noteq> []"
    and "decode tok (secret_key config) (algorithms config) = Inr payload"
    and "map_of payload ''userId'' = Some v" and "\<not> truthy v"
    and "decode' tok (secret_key config) (algorithms config) = Inr payload'"
    and "map_of payload' ''userId'' = None"
  shows "JwtAuthBackend_authenticate decode parse config conn
           = Inl (InvalidAuthorizationTokenException_new ''invalid token payload.'')
         \<and> JwtAuthBackend_authenticate decode parse config conn
           = JwtAuthBackend_authenticate decode' parse config conn"
  using assms
  by (simp add: JwtAuthBackend_authenticate_def jwt_try_body_def payload_rejected_def)

theorem jwt_falsy_userId_rejected_witness:
  "JwtAuthBackend_authenticate (\<lambda>t k a. Inr [(''userId'', PInt 0), (''projectId'', PInt 3)])
       (\<lambda>p. Inr \<lparr> userId = 0, internal_projectId = 3, internal_organizationId = 9 \<rparr>)
       (sample_jwt_config True)
       \<lparr> headers = [(''authorization'', ''a.b.c'')] \<rparr>
     = Inl (InvalidAuthorizationTokenException_new ''invalid token payload.'')
   \<and> JwtAuthBackend_authenticate (\<lambda>t k a. Inr [(''userId'', PInt 0), (''projectId'', PInt 3)])
       (\<lambda>p. Inr \<lparr> userId = 0, internal_projectId = 3, internal_organizationId = 9 \<rparr>)
       (sample_jwt_config True)
       \<lparr> headers = [(''authorization'', ''a.b.c'')] \<rparr>
     = JwtAuthBackend_authenticate (\<lambda>t k a. Inr [(''projectId'', PInt 3)])
       (\<lambda>p. Inr \<lparr> userId = 0, internal_projectId = 3, internal_organizationId = 9 \<rparr>)
       (sample_jwt_config True)
       \<lparr> headers = [(''authorization'', ''a.b.c'')] \<rparr>"
  by (rule jwt_falsy_userId_rejected [where tok = "''a.b.c''"
        and payload = "[(''userId'', PInt 0), (''projectId'', PInt 3)]" and v = "PInt 0"
        and payload' = "[(''projectId'', PInt 3)]"])
    (simp_all add: headers_get_def sample_jwt_config_def)

section \<open>\<open>int\<close> and \<open>select_project\<close>\<close>

text \<open>What \<open>int\<close> does on a string of decimal digits: it reads it, unless it is longer
  than the limit; and whatever it raises is a \<open>ValueError\<close>.\<close>

lemma is_digit_facts:
  "is_digit c \<Longrightarrow> \<not> py_isspace c \<and> c \<noteq> CHR ''_'' \<and> c \<noteq> CHR ''+'' \<and> c \<noteq> CHR ''-''"
  by (auto simp: is_digit_def py_isspace_def Let_def)

lemma no_underscore_not_adjacent:
  "CHR ''_'' \<notin> set cs \<Longrightarrow> \<not> adjacent_underscores cs"
  by (induction cs rule: adjacent_underscores.induct) auto

lemma digits_run:
  assumes "s \<noteq> []" and "list_all is_digit s"
  shows "dropWhile py_isspace s = s" and "takeWhile digit_or_underscore s = s"
    and "dropWhile digit_or_underscore s = []" and "filter is_digit s = s"
    and "run_wellformed s" and "hd s \<noteq> CHR ''+''" and "hd s \<noteq> CHR ''-''"
proof -
  from assms obtain c cs where s: "s = c # cs" by (cases s) auto
  have all: "\<forall>x\<in>set s. is_digit x"
    using assms(2) by (simp add: list_all_iff)
  then have c: "is_digit c" by (simp add: s)
  show "dropWhile py_isspace s = s"
    using c is_digit_facts by (simp add: s)
  show "takeWhile digit_or_underscore s = s"
    using all by (simp add: digit_or_underscore_def)
  show "dropWhile digit_or_underscore s = []"
    using all by (simp add: digit_or_underscore_def)
  show "filter is_digit s = s"
    using all by simp
  have nu: "CHR ''_'' \<notin> set s"
    using all is_digit_facts by blast
  then have "last s \<noteq> CHR ''_''"
    using assms(1) last_in_set by metis
  with nu c is_digit_facts show "run_wellformed s"
    by (auto simp: run_wellformed_def s no_underscore_not_adjacent simp del: last.simps)
  show "hd s \<noteq> CHR ''+''" "hd s \<noteq> CHR ''-''"
    using c is_digit_facts by (auto simp: s)
qed

lemma py_int_decimal_string:
  assumes "s \<noteq> []" and "list_all is_digit s"
    and "length s \<le> 640 \<or> int_max_str_digits py = 0 \<or> length s \<le> int_max_str_digits py"
  shows "py_int py s = Inr (int (digits_value s))"
proof -
  from assms(1) obtain c cs where s: "s = c # cs" by (cases s) auto
  have sign: "c \<noteq> CHR ''+''" "c \<noteq> CHR ''-''"
    using digits_run(6,7) [OF assms(1,2)] by (simp_all add: s)
  have t: "dropWhile py_isspace (c # cs) = c # cs"
    using digits_run(1) [OF assms(1,2)] by (simp add: s)
  show ?thesis
    unfolding py_int_def Let_def s t
    using sign digits_run(2-5) [OF assms(1,2)] assms(3)
    by (auto simp: s)
qed

lemma py_int_over_limit:
  assumes "list_all is_digit s" and "640 < length s"
    and "0 < int_max_str_digits py" and "int_max_str_digits py < length s"
  shows "py_int py s = Inl (int_limit_exceeded (int_max_str_digits py) (length s))"
proof -
  from assms(2) have ne: "s \<noteq> []" by auto
  then obtain c cs where s: "s = c # cs" by (cases s) auto
  have sign: "c \<noteq> CHR ''+''" "c \<noteq> CHR ''-''"
    using digits_run(6,7) [OF ne assms(1)] by (simp_all add: s)
  have t: "dropWhile py_isspace (c # cs) = c # cs"
    using digits_run(1) [OF ne assms(1)] by (simp add: s)
  show ?thesis
    unfolding py_int_def Let_def s t
    using sign digits_run(2-5) [OF ne assms(1)] assms(2-4)
    by (auto simp: s)
qed

lemma py_int_error_cases:
  "py_int py s = Inl e \<Longrightarrow>
   e = int_invalid_literal py s
   \<or> e = int_limit_exceeded (int_max_str_digits py)
          (length (filter is_digit (takeWhile digit_or_underscore
             (case dropWhile py_isspace s of [] \<Rightarrow> []
              | c # cs \<Rightarrow> if c = CHR ''+'' \<or> c = CHR ''-'' then cs else dropWhile py_isspace s))))"
  by (auto simp: py_int_def Let_def split: if_splits)

lemma py_int_error_class:
  assumes "py_int py s = Inl e"
  shows "class_of e = ValueError"
  using py_int_error_cases [OF assms]
  by (auto simp: int_invalid_literal_def int_limit_exceeded_def)

lemma select_project_loop_find:
  "py_int py pid = Inr n \<Longrightarrow>
   select_project_loop py ps pid = Inr (find (\<lambda>p. projectId p = n) ps)"
  by (induction ps) auto

text \<open>
  Claim C7: for every user and every decimal-string project id, \<open>select_project\<close> answers
  the first entry of \<open>projectRoles\<close> whose \<open>projectId\<close> is the integer value of the
  argument and sets \<open>currentProject\<close> to it, or answers \<open>None\<close> and leaves the user as it
  was. As stated it fails for a decimal string longer than the interpreter's limit: with
  the default limit of 4300 digits, a string of 4302 sevens makes \<open>int\<close>, and with it
  \<open>select_project\<close>, raise \<open>ValueError\<close> for a user who has a project role.
\<close>

theorem select_project_long_decimal_counterexample:
  "select_project sample_interpreter (sample_user [sample_role 1 7]) (replicate 4302 (CHR ''7''))
     = Inl (int_limit_exceeded 4300 4302)"
proof -
  have "py_int sample_interpreter (replicate 4302 (CHR ''7''))
          = Inl (int_limit_exceeded (int_max_str_digits sample_interpreter)
                   (length (replicate 4302 (CHR ''7''))))"
    by (rule py_int_over_limit) (simp_all add: list_all_iff is_digit_def sample_interpreter_def)
  then show ?thesis
    by (simp add: select_project_def sample_user_def sample_interpreter_def)
qed

text \<open>
  Claim C7, amended: for every user and every project id that \<open>int\<close> accepts, reading it
  as \<open>n\<close> (by \<open>py_int_decimal_string\<close>, every non-empty string of decimal digits within
  the limit), \<open>select_project\<close> answers the first entry of \<open>projectRoles\<close> whose
  \<open>projectId\<close> is \<open>n\<close> and sets \<open>currentProject\<close> to it; when no entry matches it
  answers \<open>None\<close> and leaves the user as it was.
\<close>

theorem select_project_first_match:
  assumes "py_int py pid = Inr n"
  shows "select_project py self pid =
           (case find (\<lambda>p. projectId p = n) (projectRoles self) of
              Some p \<Rightarrow> Inr (Some p, self \<lparr> currentProject := Some p \<rparr>)
            | None \<Rightarrow> Inr (None, self))"
  using select_project_loop_find [OF assms]
  by (simp add: select_project_def split: option.splits)

theorem select_project_first_match_witness:
  "select_project sample_interpreter
     (sample_user [sample_role 1 7, sample_role 2 42, sample_role 3 42]) ''42''
     = Inr (Some (sample_role 2 42),
            (sample_user [sample_role 1 7, sample_role 2 42, sample_role 3 42])
              \<lparr> currentProject := Some (sample_role 2 42) \<rparr>)
   \<and> select_project sample_interpreter (sample_user [sample_role 1 7]) ''42''
     = Inr (None, sample_user [sample_role 1 7])"
proof -
  have "py_int sample_interpreter ''42'' = Inr (int (digits_value ''42''))"
    by (rule py_int_decimal_string) (simp_all add: is_digit_def)
  then have h: "py_int sample_interpreter ''42'' = Inr 42"
    by (simp add: digits_value_def)
  show ?thesis
    using select_project_first_match [OF h,
        of "sample_user [sample_role 1 7, sample_role 2 42, sample_role 3 42]"]
      select_project_first_match [OF h, of "sample_user [sample_role 1 7]"]
    by (simp add: sample_user_def sample_role_def)
qed

section \<open>The remote-token backend\<close>

lemmas token_defs =
  TokenAuthBackend_authenticate_def token_try_body_def token_inner_try_def
  token_inner_body_def headers_get_def authorization_header_key_def auth_header_key_def
  project_header_key_def

text \<open>
  Claim C5: a request with \<open>authorization\<close> set and \<open>x-auth-id\<close> missing raises the
  Missing-Authorization error and yields the error envelope with code 400. As stated it
  fails: \<open>authenticate\<close> raises nothing for such a request and answers
  \<open>(False, AnonymousUser())\<close>, so no error reaches the translator.
\<close>

theorem token_missing_auth_id_counterexample:
  "TokenAuthBackend_authenticate sample_interpreter (\<lambda>t a. Inr None)
      (\<lambda>i. Inr (sample_user []))
      \<lparr> headers = [(''authorization'', ''Bearer abc'')] \<rparr>
    = Inr (False, AnonymousUser)"
  by (simp add: token_defs)

text \<open>
  Claim C5, amended: for such a request the \<open>try\<close> body raises the Missing-Authorization
  error, the backend's own handler catches it, and \<open>authenticate\<close> answers
  \<open>(False, AnonymousUser())\<close> without raising; the translator, given that error, renders
  the envelope with \<open>success\<close> false and code 400.
\<close>

theorem token_missing_auth_id_degrades:
  assumes "headers_get conn authorization_header_key = Some t"
    and "headers_get conn auth_header_key = None"
  shows "token_try_body py resolver build conn
           = Inl (MissingAuthorizationKeyException_new ''token-auth'' missing_key_default_message)
         \<and> TokenAuthBackend_authenticate py resolver build conn = Inr (False, AnonymousUser)
         \<and> map_option render (handle_rapida_error
              (MissingAuthorizationKeyException_new ''token-auth'' missing_key_default_message))
           = Some (PDict [(''success'', PBool False),
                (''content'',
                 PDict [(''error_message'', PStr ''token-auth: Missing Authorization Key''),
                        (''detail'',
                         PStr ''RAPIDA_KN_API_3001 - token-auth: Missing Authorization Key'')]),
                (''code'', PInt 400)])"
proof -
  have body: "token_try_body py resolver build conn
           = Inl (MissingAuthorizationKeyException_new ''token-auth'' missing_key_default_message)"
    using assms by (simp add: token_try_body_def)
  have auth: "TokenAuthBackend_authenticate py resolver build conn = Inr (False, AnonymousUser)"
    by (simp add: TokenAuthBackend_authenticate_def body)
  have envelope: "map_option render (handle_rapida_error
              (MissingAuthorizationKeyException_new ''token-auth'' missing_key_default_message))
           = Some (PDict [(''success'', PBool False),
                (''content'',
                 PDict [(''error_message'', PStr ''token-auth: Missing Authorization Key''),
                        (''detail'',
                         PStr ''RAPIDA_KN_API_3001 - token-auth: Missing Authorization Key'')]),
                (''code'', PInt 400)])"
    by (simp add: exn_new_defs mro_defs render_def default_on_error_def ok_def str_int_eval)
  from body auth envelope show ?thesis by simp
qed

theorem token_missing_auth_id_degrades_witness:
  "token_try_body sample_interpreter (\<lambda>t a. Inr None) (\<lambda>i. Inr (sample_user []))
      \<lparr> headers = [(''authorization'', ''Bearer abc''), (''x-project-id'', ''42'')] \<rparr>
    = Inl (MissingAuthorizationKeyException_new ''token-auth'' missing_key_default_message)
   \<and> TokenAuthBackend_authenticate sample_interpreter (\<lambda>t a. Inr None)
      (\<lambda>i. Inr (sample_user []))
      \<lparr> headers = [(''authorization'', ''Bearer abc''), (''x-project-id'', ''42'')] \<rparr>
    = Inr (False, AnonymousUser)"
  using token_missing_auth_id_degrades
    [of "\<lparr> headers = [(''authorization'', ''Bearer abc''), (''x-project-id'', ''42'')] \<rparr>"
      "''Bearer abc''" sample_interpreter "\<lambda>t a. Inr None" "\<lambda>i. Inr (sample_user [])"]
  by (simp add: headers_get_def authorization_header_key_def auth_header_key_def)

text \<open>
  Claim C9: every authenticated request whose \<open>x-project-id\<close> is not a decimal integer
  makes \<open>int\<close> raise a \<open>ValueError\<close> that \<open>authenticate\<close> propagates. As stated it fails:
  \<open>int(project_id)\<close> stands in the test of the loop over \<open>projectRoles\<close>, so a user
  without project roles never evaluates it, and \<open>authenticate\<close> answers the user.
\<close>

theorem token_project_id_counterexample:
  "TokenAuthBackend_authenticate sample_interpreter
      (\<lambda>t a. Inr (Some [(''user'', PDict [])]))
      (\<lambda>i. Inr (sample_user []))
      \<lparr> headers = [(''authorization'', ''Bearer abc''), (''x-auth-id'', ''7''),
                   (''x-project-id'', ''abc'')] \<rparr>
    = Inr (True, Authenticated (sample_user []))"
  by (simp add: token_defs select_project_def sample_user_def)

text \<open>
  Claim C9, amended: when the request passes authentication, the user has at least one
  project role, and \<open>x-project-id\<close> is a non-empty value that \<open>int\<close> rejects, then
  \<open>authenticate\<close> propagates the \<open>ValueError\<close> that \<open>int\<close> raised, which is neither an
  \<open>AuthenticationException\<close> nor a \<open>RapidaException\<close>.
\<close>

theorem token_bad_project_id_raises_ValueError:
  assumes "headers_get conn authorization_header_key = Some t" and "t \<noteq> []"
    and "headers_get conn auth_header_key = Some a" and "a \<noteq> []"
    and "resolver t a = Inr (Some info)" and "map_of info ''user'' = Some x"
    and "build info = Inr u" and "projectRoles u \<noteq> []"
    and "headers_get conn project_header_key = Some pid" and "pid \<noteq> []"
    and "py_int py pid = Inl e"
  shows "TokenAuthBackend_authenticate py resolver build conn = Inl e
         \<and> class_of e = ValueError
         \<and> \<not> isinstance e AuthenticationException
         \<and> \<not> isinstance e RapidaException"
proof -
  obtain p ps where roles: "projectRoles u = p # ps"
    using assms(8) by (cases "projectRoles u") auto
  have info: "info \<noteq> []"
    using assms(6) by auto
  have cls: "class_of e = ValueError"
    using assms(11) by (rule py_int_error_class)
  then have handlers: "\<not> isinstance e BridgeException" "\<not> isinstance e AuthenticationException"
    "\<not> isinstance e RapidaException"
    by (simp_all add: isinstance_def mro_defs)
  have sel: "select_project py u pid = Inl e"
    using assms(11) roles by (simp add: select_project_def)
  have inner: "token_inner_body py resolver build conn t a = Inl e"
    using assms info sel by (simp add: token_inner_body_def)
  have "token_try_body py resolver build conn = Inl e"
    using assms inner handlers by (simp add: token_try_body_def token_inner_try_def)
  then show ?thesis
    using cls handlers by (simp add: TokenAuthBackend_authenticate_def)
qed

theorem token_bad_project_id_raises_ValueError_witness:
  "TokenAuthBackend_authenticate sample_interpreter
      (\<lambda>t a. Inr (Some [(''user'', PDict [])]))
      (\<lambda>i. Inr (sample_user [sample_role 1 42]))
      \<lparr> headers = [(''authorization'', ''Bearer abc''), (''x-auth-id'', ''7''),
                   (''x-project-id'', ''abc'')] \<rparr>
    = Inl (Foreign ValueError
             (''invalid literal for int() with base 10: '' @ [CHR 0x27] @ ''abc'' @ [CHR 0x27]))
   \<and> TokenAuthBackend_authenticate sample_interpreter
      (\<lambda>t a. Inr (Some [(''user'', PDict [])]))
      (\<lambda>i. Inr (sample_user [sample_role 1 42]))
      \<lparr> headers = [(''authorization'', ''Bearer abc''), (''x-auth-id'', ''7''),
                   (''x-project-id'', CHR 0x1C # ''42'')] \<rparr>
    = Inl (int_invalid_literal sample_interpreter (CHR 0x1C # ''42''))"
proof -
  have h1: "py_int sample_interpreter ''abc'' = Inl (int_invalid_literal sample_interpreter ''abc'')"
    by (simp add: py_int_eval)
  have h2: "py_int sample_interpreter (CHR 0x1C # ''42'')
              = Inl (int_invalid_literal sample_interpreter (CHR 0x1C # ''42''))"
    by (simp add: py_int_eval)
  have msg: "int_invalid_literal sample_interpreter ''abc''
      = Foreign ValueError
          (''invalid literal for int() with base 10: '' @ [CHR 0x27] @ ''abc'' @ [CHR 0x27])"
    by (simp add: int_invalid_literal_def sample_interpreter_def)
  show ?thesis
    using token_bad_project_id_raises_ValueError
      [where conn = "\<lparr> headers = [(''authorization'', ''Bearer abc''), (''x-auth-id'', ''7''),
                                  (''x-project-id'', ''abc'')] \<rparr>"
         and t = "''Bearer abc''" and a = "''7''"
         and resolver = "\<lambda>t a. Inr (Some [(''user'', PDict [])])"
         and info = "[(''user'', PDict [])]" and x = "PDict []"
         and build = "\<lambda>i. Inr (sample_user [sample_role 1 42])"
         and u = "sample_user [sample_role 1 42]" and pid = "''abc''",
       OF _ _ _ _ _ _ _ _ _ _ h1]
      token_bad_project_id_raises_ValueError
      [where conn = "\<lparr> headers = [(''authorization'', ''Bearer abc''), (''x-auth-id'', ''7''),
                                  (''x-project-id'', CHR 0x1C # ''42'')] \<rparr>"
         and t = "''Bearer abc''" and a = "''7''"
         and resolver = "\<lambda>t a. Inr (Some [(''user'', PDict [])])"
         and info = "[(''user'', PDict [])]" and x = "PDict []"
         and build = "\<lambda>i. Inr (sample_user [sample_role 1 42])"
         and u = "sample_user [sample_role 1 42]" and pid = "CHR 0x1C # ''42''",
       OF _ _ _ _ _ _ _ _ _ _ h2]
    by (simp add: headers_get_def authorization_header_key_def auth_header_key_def
        project_header_key_def sample_user_def msg)
qed

section \<open>Connector lookup\<close>

lemma sublist_trans: "sublist xs ys \<Longrightarrow> sublist ys zs \<Longrightarrow> sublist xs zs"
  by (rule sublist_order.order_trans)

lemma sublist_join: "x \<in> set xs \<Longrightarrow> sublist x (join sep xs)"
proof (induction sep xs rule: join.induct)
  case (1 sep)
  then show ?case by simp
next
  case (2 sep y)
  then show ?case by simp
next
  case (3 sep y z zs)
  show ?case
  proof (cases "x = y")
    case True
    then show ?thesis by simp
  next
    case False
    with 3 have "sublist x (join sep (z # zs))" by simp
    then have "sublist x ((y @ sep) @ join sep (z # zs))"
      by (meson sublist_append)
    then show ?thesis by simp
  qed
qed

lemma sublist_dict_str:
  assumes "(k, v) \<in> set d"
  shows "sublist (repr_key k) (dict_str repr_key repr_value d)"
proof -
  let ?item = "\<lambda>(k, v). repr_key k @ '': '' @ repr_value v"
  have "?item (k, v) \<in> set (map ?item d)"
    using assms by force
  then have "sublist (?item (k, v)) (join '', '' (map ?item d))"
    by (rule sublist_join)
  moreover have "sublist (repr_key k) (?item (k, v))"
    by simp
  ultimately have "sublist (repr_key k) (join '', '' (map ?item d))"
    by (rule sublist_trans [rotated])
  then have "sublist (repr_key k) (''{'' @ join '', '' (map ?item d) @ ''}'')"
    by (meson sublist_append)
  then show ?thesis
    by (simp add: dict_str_def)
qed

text \<open>
  Claim C4: resolving a name that is not registered raises a Connector-Not-There error
  (code 2003) whose message names the key and lists the registered keys. As stated it
  fails: \<open>get_me\<close> raises \<open>ConnectorIllegalNameException\<close>, whose code is 2002.
\<close>

theorem get_me_unregistered_counterexample:
  "get_me (\<lambda>k. CHR 0x27 # k @ [CHR 0x27]) (\<lambda>c. ''<RedisConnector>'') ''kafka''
      \<lparr> datasource = Some [(''redis'', ())] \<rparr>
     = Inl (Rapida ConnectorIllegalNameException
          \<lparr> status_code = 422,
            message = ''kafka: kafka not found in context. choose possible keys ''
                       @ ''{'' @ [CHR 0x27] @ ''redis'' @ [CHR 0x27] @ '': <RedisConnector>}'',
            error_code = PStr ''RAPIDA_KN_API_2002'',
            connector_name = Some ''kafka'', bridge_name = None \<rparr>)"
  by (simp add: get_me_def dict_str_def exn_new_defs str_int_eval)

text \<open>
  Claim C4, amended: resolving a name that is not registered raises a
  Connector-Illegal-Name error, with \<open>error_code\<close> \<open>RAPIDA_KN_API_2002\<close> and status 422,
  whose message names the requested key and contains the rendering of every registered
  key.
\<close>

theorem get_me_unregistered_raises_illegal_name:
  assumes "datasource request = Some d" and "map_of d connection_name = None"
  shows "\<exists>a. get_me repr_key repr_value connection_name request
               = Inl (Rapida ConnectorIllegalNameException a)
           \<and> error_code a = PStr ''RAPIDA_KN_API_2002''
           \<and> status_code a = 422
           \<and> connector_name a = Some connection_name
           \<and> message a = connection_name @ '': '' @ connection_name
                 @ '' not found in context. choose possible keys ''
                 @ dict_str repr_key repr_value d
           \<and> sublist connection_name (message a)
           \<and> list_all (\<lambda>k. sublist (repr_key k) (message a)) (map fst d)"
proof -
  let ?m = "connection_name @ '' not found in context. choose possible keys ''
              @ dict_str repr_key repr_value d"
  let ?a = "ConnectorException_init ?m connection_name 2002"
  have g: "get_me repr_key repr_value connection_name request
             = Inl (Rapida ConnectorIllegalNameException ?a)"
    using assms by (simp add: get_me_def ConnectorIllegalNameException_new_def)
  have msg: "message ?a = connection_name @ '': '' @ ?m"
    by (simp add: ConnectorException_init_def RapidaException_init_def)
  have keys: "sublist (repr_key k) (message ?a)" if "k \<in> set (map fst d)" for k
  proof -
    from that obtain v where "(k, v) \<in> set d" by auto
    then have "sublist (repr_key k) (dict_str repr_key repr_value d)"
      by (rule sublist_dict_str)
    then have "sublist (repr_key k)
       ((connection_name @ '': '' @ connection_name
           @ '' not found in context. choose possible keys '')
          @ dict_str repr_key repr_value d @ [])"
      by (meson sublist_append)
    then show ?thesis unfolding msg by simp
  qed
  have "error_code ?a = PStr ''RAPIDA_KN_API_2002''"
    by (simp add: connector_error_code_composite str_int_eval)
  moreover have "status_code ?a = 422" "connector_name ?a = Some connection_name"
    by (simp_all add: ConnectorException_init_def RapidaException_init_def)
  moreover have "sublist connection_name (message ?a)"
    unfolding msg by simp
  moreover have "list_all (\<lambda>k. sublist (repr_key k) (message ?a)) (map fst d)"
    using keys unfolding list_all_iff by blast
  ultimately show ?thesis
    using g msg by (intro exI [of _ ?a]) simp
qed

theorem get_me_unregistered_raises_illegal_name_witness:
  "\<exists>a. get_me (\<lambda>k. CHR 0x27 # k @ [CHR 0x27]) (\<lambda>c. ''<RedisConnector>'') ''kafka''
           \<lparr> datasource = Some [(''redis'', ()), (''postgres'', ())] \<rparr>
         = Inl (Rapida ConnectorIllegalNameException a)
       \<and> error_code a = PStr ''RAPIDA_KN_API_2002''
       \<and> sublist (CHR 0x27 # ''redis'' @ [CHR 0x27]) (message a)
       \<and> sublist (CHR 0x27 # ''postgres'' @ [CHR 0x27]) (message a)"
  using get_me_unregistered_raises_illegal_name
    [of "\<lparr> datasource = Some [(''redis'', ()), (''postgres'', ())] \<rparr>"
      "[(''redis'', ()), (''postgres'', ())]" "''kafka''"
      "\<lambda>k. CHR 0x27 # k @ [CHR 0x27]" "\<lambda>c. ''<RedisConnector>''"]
  by auto

section \<open>The credential store of \<open>STSConnector\<close>\<close>

lemma delete_absent: "map_of al k = None \<Longrightarrow> AList.delete k al = al"
  by (simp add: map_of_eq_None_iff)

lemma get_temporary_credentials_live:
  "map_of (credentials_store cls) s = Some (c, t) \<Longrightarrow> time_at_check env - t < 600 \<Longrightarrow>
   get_temporary_credentials env self s kw cls = (Inr c, self, cls)"
  by (simp add: get_temporary_credentials_def max_age_in_store_def)

lemma get_temporary_credentials_not_live:
  assumes "\<not> has_live_entry env cls s"
  shows "get_temporary_credentials env self s kw cls
           = resolve_and_store env self s kw
               (cls \<lparr> credentials_store := AList.delete s (credentials_store cls) \<rparr>)"
proof (cases "map_of (credentials_store cls) s")
  case None
  then show ?thesis
    by (simp add: get_temporary_credentials_def delete_absent)
next
  case (Some e)
  with assms show ?thesis
    by (simp add: get_temporary_credentials_def has_live_entry_def)
qed

lemma resolve_frozen_success:
  "get_credentials env self s = Inr r \<Longrightarrow>
   resolve_frozen env self s cls
     = (Inr r, self,
        cls \<lparr> credentials_store := AList.update s (r, time_at_store env) (credentials_store cls),
              sdk_calls := sdk_calls cls @ [Call_get_frozen_credentials] \<rparr>)"
  by (simp add: resolve_frozen_def)

lemma resolve_assumed_success:
  "assumed_credentials env self = (Inr r, self') \<Longrightarrow>
   resolve_assumed env self arn s kw cls
     = (Inr r, self',
        cls \<lparr> credentials_store := AList.update s (r, time_at_store env) (credentials_store cls),
              sdk_calls := sdk_calls cls @ [Call_assume_role arn s kw] \<rparr>)"
  by (simp add: resolve_assumed_def)

lemma resolve_and_store_stores:
  assumes "resolve_and_store env self s kw cls = (Inr c, self', cls')"
  shows "map_of (credentials_store cls') s = Some (c, time_at_store env)"
  using assms
  by (auto simp: resolve_and_store_def resolve_frozen_def resolve_assumed_def Let_def update_conv'
      split: option.splits if_splits sum.splits prod.splits)

text \<open>
  Claim C2: for every session name, a stored entry younger than 600 seconds is answered
  as it is, with no round-trip and no change of state; otherwise (no entry, or one aged
  600 seconds or more) the round-trip is made exactly once and, when it succeeds, its
  payload is stored with the current time under the session name, in place of any expired
  entry, and returned. The three parts are the hit, the miss without a role, and the miss
  with a role; the last conjunct reads the stored entry back.
\<close>

theorem get_temporary_credentials_cache:
  "(map_of (credentials_store cls) s = Some (c, t) \<and> time_at_check env - t < 600
      \<longrightarrow> get_temporary_credentials env self s kw cls = (Inr c, self, cls))
   \<and> (\<not> has_live_entry env cls s
        \<and> (assume_role (aws_config self) = None \<or> assume_role (aws_config self) = Some [])
        \<and> get_credentials env self s = Inr r
      \<longrightarrow> get_temporary_credentials env self s kw cls
           = (Inr r, self,
              cls \<lparr> credentials_store :=
                      AList.update s (r, time_at_store env)
                        (AList.delete s (credentials_store cls)),
                    sdk_calls := sdk_calls cls @ [Call_get_frozen_credentials] \<rparr>))
   \<and> (\<not> has_live_entry env cls s
        \<and> assume_role (aws_config self) = Some arn \<and> arn \<noteq> []
        \<and> assumed_credentials env self = (Inr r, self')
      \<longrightarrow> get_temporary_credentials env self s kw cls
           = (Inr r, self',
              cls \<lparr> credentials_store :=
                      AList.update s (r, time_at_store env)
                        (AList.delete s (credentials_store cls)),
                    sdk_calls := sdk_calls cls @ [Call_assume_role arn s kw] \<rparr>))
   \<and> map_of (AList.update s (r, time_at_store env) (AList.delete s (credentials_store cls))) s
       = Some (r, time_at_store env)"
proof (intro conjI impI)
  assume "map_of (credentials_store cls) s = Some (c, t) \<and> time_at_check env - t < 600"
  then show "get_temporary_credentials env self s kw cls = (Inr c, self, cls)"
    by (simp add: get_temporary_credentials_live)
next
  assume h: "\<not> has_live_entry env cls s
        \<and> (assume_role (aws_config self) = None \<or> assume_role (aws_config self) = Some [])
        \<and> get_credentials env self s = Inr r"
  then have "resolve_and_store env self s kw
               (cls \<lparr> credentials_store := AList.delete s (credentials_store cls) \<rparr>)
             = resolve_frozen env self s
               (cls \<lparr> credentials_store := AList.delete s (credentials_store cls) \<rparr>)"
    by (auto simp: resolve_and_store_def)
  with h show "get_temporary_credentials env self s kw cls
           = (Inr r, self,
              cls \<lparr> credentials_store :=
                      AList.update s (r, time_at_store env)
                        (AList.delete s (credentials_store cls)),
                    sdk_calls := sdk_calls cls @ [Call_get_frozen_credentials] \<rparr>)"
    by (simp add: get_temporary_credentials_not_live resolve_frozen_success)
next
  assume h: "\<not> has_live_entry env cls s
        \<and> assume_role (aws_config self) = Some arn \<and> arn \<noteq> []
        \<and> assumed_credentials env self = (Inr r, self')"
  then show "get_temporary_credentials env self s kw cls
           = (Inr r, self',
              cls \<lparr> credentials_store :=
                      AList.update s (r, time_at_store env)
                        (AList.delete s (credentials_store cls)),
                    sdk_calls := sdk_calls cls @ [Call_assume_role arn s kw] \<rparr>)"
    by (simp add: get_temporary_credentials_not_live resolve_and_store_def
        resolve_assumed_success)
next
  show "map_of (AList.update s (r, time_at_store env) (AList.delete s (credentials_store cls))) s
       = Some (r, time_at_store env)"
    by (simp add: update_conv')
qed

theorem get_temporary_credentials_cache_witness:
  "get_temporary_credentials
     (sample_environment 500 500 (Inr sample_frozen) (Inr sample_assumed))
     (sample_connector None) ''docs'' []
     \<lparr> credentials_store = [(''docs'', (PStr ''cached'', 0))], sdk_calls = [] \<rparr>
   = (Inr (PStr ''cached''), sample_connector None,
      \<lparr> credentials_store = [(''docs'', (PStr ''cached'', 0))], sdk_calls = [] \<rparr>)
   \<and> get_temporary_credentials
     (sample_environment 700 701 (Inr sample_frozen) (Inr sample_assumed))
     (sample_connector None) ''docs'' []
     \<lparr> credentials_store = [(''docs'', (PStr ''cached'', 0))], sdk_calls = [] \<rparr>
   = (Inr (PDict [(''access_key'', PStr ''AKIA''), (''secret_key'', PStr ''secret''),
                  (''token'', PNone), (''region'', PStr ''eu-west-1'')]),
      sample_connector None,
      \<lparr> credentials_store =
          [(''docs'', (PDict [(''access_key'', PStr ''AKIA''), (''secret_key'', PStr ''secret''),
                              (''token'', PNone), (''region'', PStr ''eu-west-1'')], 701))],
        sdk_calls = [Call_get_frozen_credentials] \<rparr>)"
  using get_temporary_credentials_cache [where cls = "\<lparr> credentials_store = [(''docs'', (PStr ''cached'', 0))], sdk_calls = [] \<rparr>"
        and s = "''docs''" and c = "PStr ''cached''" and t = 0
        and env = "sample_environment 500 500 (Inr sample_frozen) (Inr sample_assumed)"
        and self = "sample_connector None" and kw = "[]"]
    get_temporary_credentials_cache [where cls = "\<lparr> credentials_store = [(''docs'', (PStr ''cached'', 0))], sdk_calls = [] \<rparr>"
        and s = "''docs''"
        and env = "sample_environment 700 701 (Inr sample_frozen) (Inr sample_assumed)"
        and self = "sample_connector None" and kw = "[]"
        and r = "PDict [(''access_key'', PStr ''AKIA''), (''secret_key'', PStr ''secret''),
                  (''token'', PNone), (''region'', PStr ''eu-west-1'')]"]
  by (simp add: has_live_entry_def max_age_in_store_def get_credentials_def get_session_def
      region_pyval_def sample_environment_def sample_connector_def sample_frozen_def)

text \<open>
  Claim C8: the store belongs to the class. Whatever their configurations, when instance
  \<open>a\<close> resolves and caches a credential under a session name, instance \<open>b\<close> answers that
  same credential for that session name, without a round-trip, as long as the entry is
  less than 600 seconds old.
\<close>

theorem credentials_store_shared:
  assumes "\<not> has_live_entry env1 cls s"
    and "get_temporary_credentials env1 a s kw1 cls = (Inr c, a', cls1)"
    and "time_at_check env2 - time_at_store env1 < 600"
  shows "get_temporary_credentials env2 b s kw2 cls1 = (Inr c, b, cls1)"
proof -
  from assms(1,2) have "resolve_and_store env1 a s kw1
      (cls \<lparr> credentials_store := AList.delete s (credentials_store cls) \<rparr>) = (Inr c, a', cls1)"
    by (simp add: get_temporary_credentials_not_live)
  then have "map_of (credentials_store cls1) s = Some (c, time_at_store env1)"
    by (rule resolve_and_store_stores)
  then show ?thesis
    using assms(3) by (rule get_temporary_credentials_live)
qed

theorem credentials_store_shared_witness:
  "get_temporary_credentials
     (sample_environment 400 400 (Inl (Foreign BotoConnectionError ''down'')) (Inl (Foreign BotoConnectionError ''down'')))
     (sample_connector (Some ''arn:aws:iam::1:role/docs'')) ''docs'' []
     \<lparr> credentials_store =
          [(''docs'', (PDict [(''access_key'', PStr ''AKIA''), (''secret_key'', PStr ''secret''),
                              (''token'', PNone), (''region'', PStr ''eu-west-1'')], 101))],
        sdk_calls = [Call_get_frozen_credentials] \<rparr>
   = (Inr (PDict [(''access_key'', PStr ''AKIA''), (''secret_key'', PStr ''secret''),
                  (''token'', PNone), (''region'', PStr ''eu-west-1'')]),
      sample_connector (Some ''arn:aws:iam::1:role/docs''),
      \<lparr> credentials_store =
          [(''docs'', (PDict [(''access_key'', PStr ''AKIA''), (''secret_key'', PStr ''secret''),
                              (''token'', PNone), (''region'', PStr ''eu-west-1'')], 101))],
        sdk_calls = [Call_get_frozen_credentials] \<rparr>)"
proof -
  let ?env1 = "sample_environment 100 101 (Inr sample_frozen) (Inr sample_assumed)"
  let ?cls = "\<lparr> credentials_store = [], sdk_calls = [] \<rparr>"
  let ?cred = "PDict [(''access_key'', PStr ''AKIA''), (''secret_key'', PStr ''secret''),
                  (''token'', PNone), (''region'', PStr ''eu-west-1'')]"
  have fresh: "\<not> has_live_entry ?env1 ?cls ''docs''"
    by (simp add: has_live_entry_def)
  have first: "get_temporary_credentials ?env1 (sample_connector None) ''docs'' [] ?cls
     = (Inr ?cred, sample_connector None,
        \<lparr> credentials_store = [(''docs'', (?cred, 101))],
          sdk_calls = [Call_get_frozen_credentials] \<rparr>)"
    by (simp add: get_temporary_credentials_def resolve_and_store_def resolve_frozen_def
        get_credentials_def get_session_def region_pyval_def sample_environment_def
        sample_connector_def sample_frozen_def)
  have young: "time_at_check (sample_environment 400 400 (Inl (Foreign BotoConnectionError ''down''))
        (Inl (Foreign BotoConnectionError ''down''))) - time_at_store ?env1 < 600"
    by (simp add: sample_environment_def)
  show ?thesis
    by (rule credentials_store_shared [OF fresh first young])
qed

lemma client_error_code_class:
  "client_error_code err = Some code \<Longrightarrow>
   isinstance err BotoClientError \<and> \<not> isinstance err BotoConnectionError"
  by (cases err) (simp_all add: isinstance_def mro_defs)

lemma operate_failure:
  assumes "assume_role_outcome env = Inl err" and "isinstance err Exception"
  shows "operate env self
           = (Inl (ConnectorClientFailureException_new (failure_message err) sts_name),
              connect env self)"
proof (cases "client_error_code err = Some ''STS.Client.exceptions.RegionDisabledException''")
  case True
  with client_error_code_class [OF True] assms show ?thesis
    by (simp add: operate_def failure_message_def Let_def)
next
  case False
  with assms show ?thesis
    by (simp add: operate_def failure_message_def Let_def)
qed

lemma client_failure_attrs:
  "attrs_of (ConnectorClientFailureException_new msg sts_name)
     = Some \<lparr> status_code = 422, message = ''sts: '' @ msg,
              error_code = PStr ''RAPIDA_KN_API_2001'',
              connector_name = Some ''sts'', bridge_name = None \<rparr>"
  by (simp add: exn_new_defs sts_name_def str_int_eval)

text \<open>
  Claim C3: when the round-trip fails, \<open>get_temporary_credentials\<close> raises the typed
  connector failure and leaves the store as it was before the call. As stated it fails for
  a store that holds an expired entry: the entry is deleted before the round-trip is
  made, so the store after the failed call is not the store before it.
\<close>

theorem failed_resolution_evicts_counterexample:
  "get_temporary_credentials
     (sample_environment 1000 1000 (Inr sample_frozen) (Inl (Foreign BotoConnectionError ''timed out'')))
     (sample_connector (Some ''arn:aws:iam::1:role/docs'')) ''docs'' []
     \<lparr> credentials_store = [(''docs'', (PDict [], 0))], sdk_calls = [] \<rparr>
   = (Inl (ConnectorClientFailureException_new ''timed out'' ''sts''),
      (sample_connector (Some ''arn:aws:iam::1:role/docs''))
        \<lparr> connection := Some \<lparr> region_variable = Some ''eu-west-1'', explicit_credentials = None \<rparr> \<rparr>,
      \<lparr> credentials_store = [],
        sdk_calls = [Call_assume_role ''arn:aws:iam::1:role/docs'' ''docs'' []] \<rparr>)"
  by (simp add: get_temporary_credentials_def max_age_in_store_def resolve_and_store_def
      resolve_assumed_def assumed_credentials_def operate_def connect_def get_session_def
      sample_environment_def sample_connector_def sts_name_def mro_defs)

text \<open>
  Claim C3, amended: when no live entry is stored and the round-trip fails, no entry is
  stored for the session name: the store after the call is the store before it without the
  session's expired entry, and is the same store when it held no entry for the session.
  With a role configured, every \<open>Exception\<close> of the call is raised as
  \<open>ConnectorClientFailureException\<close> (\<open>RAPIDA_KN_API_2001\<close>, status 422) carrying the
  connector name \<open>sts\<close> and the message of the failure.
\<close>

theorem failed_resolution_stores_nothing:
  assumes "\<not> has_live_entry env cls s"
  shows "(assume_role (aws_config self) = Some arn \<and> arn \<noteq> []
          \<and> assume_role_outcome env = Inl err \<and> isinstance err Exception
        \<longrightarrow> get_temporary_credentials env self s kw cls
                 = (Inl (ConnectorClientFailureException_new (failure_message err) sts_name),
                    connect env self,
                    cls \<lparr> credentials_store := AList.delete s (credentials_store cls),
                          sdk_calls := sdk_calls cls @ [Call_assume_role arn s kw] \<rparr>)
             \<and> attrs_of (ConnectorClientFailureException_new (failure_message err) sts_name)
                 = Some \<lparr> status_code = 422, message = ''sts: '' @ failure_message err,
                          error_code = PStr ''RAPIDA_KN_API_2001'',
                          connector_name = Some ''sts'', bridge_name = None \<rparr>)
       \<and> ((assume_role (aws_config self) = None \<or> assume_role (aws_config self) = Some [])
          \<and> frozen_outcome env = Inl err
        \<longrightarrow> credentials_store (snd (snd (get_temporary_credentials env self s kw cls)))
              = AList.delete s (credentials_store cls))
       \<and> (map_of (credentials_store cls) s = None
        \<longrightarrow> AList.delete s (credentials_store cls) = credentials_store cls)"
proof -
  have with_role: "get_temporary_credentials env self s kw cls
                 = (Inl (ConnectorClientFailureException_new (failure_message err) sts_name),
                    connect env self,
                    cls \<lparr> credentials_store := AList.delete s (credentials_store cls),
                          sdk_calls := sdk_calls cls @ [Call_assume_role arn s kw] \<rparr>)"
    if h: "assume_role (aws_config self) = Some arn \<and> arn \<noteq> []
          \<and> assume_role_outcome env = Inl err \<and> isinstance err Exception"
  proof -
    from h have "operate env self
               = (Inl (ConnectorClientFailureException_new (failure_message err) sts_name),
                  connect env self)"
      by (simp add: operate_failure)
    then have "assumed_credentials env self
               = (Inl (ConnectorClientFailureException_new (failure_message err) sts_name),
                  connect env self)"
      by (simp add: assumed_credentials_def)
    with h assms show ?thesis
      by (simp add: get_temporary_credentials_not_live resolve_and_store_def resolve_assumed_def)
  qed
  have without_role: "credentials_store (snd (snd (get_temporary_credentials env self s kw cls)))
              = AList.delete s (credentials_store cls)"
    if h: "(assume_role (aws_config self) = None \<or> assume_role (aws_config self) = Some [])
          \<and> frozen_outcome env = Inl err"
  proof -
    from h have "get_credentials env self s = Inl err"
      by (simp add: get_credentials_def)
    with h assms show ?thesis
      by (auto simp: get_temporary_credentials_not_live resolve_and_store_def resolve_frozen_def)
  qed
  have absent: "AList.delete s (credentials_store cls) = credentials_store cls"
    if "map_of (credentials_store cls) s = None"
    using that by (rule delete_absent)
  from with_role without_role absent client_failure_attrs show ?thesis
    by blast
qed

theorem failed_resolution_stores_nothing_witness:
  "get_temporary_credentials
     (sample_environment 1000 1000 (Inr sample_frozen)
        (Inl (ClientError ''STS.Client.exceptions.RegionDisabledException'' ''An error occurred'')))
     (sample_connector (Some ''arn:aws:iam::1:role/docs'')) ''docs'' []
     \<lparr> credentials_store = [(''other'', (PStr ''kept'', 900))], sdk_calls = [] \<rparr>
   = (Inl (ConnectorClientFailureException_new ''Illegal region for sts.'' ''sts''),
      (sample_connector (Some ''arn:aws:iam::1:role/docs''))
        \<lparr> connection := Some \<lparr> region_variable = Some ''eu-west-1'', explicit_credentials = None \<rparr> \<rparr>,
      \<lparr> credentials_store = [(''other'', (PStr ''kept'', 900))],
        sdk_calls = [Call_assume_role ''arn:aws:iam::1:role/docs'' ''docs'' []] \<rparr>)"
  using failed_resolution_stores_nothing [where cls = "\<lparr> credentials_store = [(''other'', (PStr ''kept'', 900))], sdk_calls = [] \<rparr>"
        and s = "''docs''"
        and env = "sample_environment 1000 1000 (Inr sample_frozen)
          (Inl (ClientError ''STS.Client.exceptions.RegionDisabledException'' ''An error occurred''))"
        and self = "sample_connector (Some ''arn:aws:iam::1:role/docs'')" and kw = "[]"
        and arn = "''arn:aws:iam::1:role/docs''"
        and err = "ClientError ''STS.Client.exceptions.RegionDisabledException'' ''An error occurred''"]
  by (simp add: has_live_entry_def failure_message_def isinstance_def mro_defs connect_def
      get_session_def sts_name_def sample_environment_def sample_connector_def)

end
